theory Spec2Isabelle
  imports Main
begin

section \<open>The dialog layer of TexText (textext/gui.py)\<close>

text \<open>
  The module builds one of two dialogs (class \<open>TexTextGuiTK\<close> on TkInter, class
  \<open>TexTextGuiGTK\<close> on GTK3) over a common base class \<open>TexTextGuiBase\<close>. The embedding
  keeps the object state of each class as a record, every handler as a function from the
  state to an outcome (an exception that leaves the handler, if any), the list of
  observable toolkit effects the handler produced, and the new state.

  Python floats are never computed with in this module: a scale factor is parsed, stored
  and handed on. Their type is therefore a type variable \<open>'f\<close>, and the operations of the
  host language and of Tcl/Tk on them are parameters, collected in the record \<open>host\<close>.
\<close>

subsection \<open>Python values, exceptions and the configuration store\<close>

datatype 'f pyval =
    PyBool bool
  | PyInt int
  | PyFloat 'f
  | PyStr string
  | PyDict "string \<rightharpoonup> 'f pyval"

text \<open>
  \<open>exn\<close> are the instances of class \<open>Exception\<close> that occur: the ones this module's own
  statements raise, \<open>TexTextCommandFailed\<close> (message, captured stdout, captured stderr:
  the two outputs are bytes, one \<open>char\<close> each) and any other exception a callback raises,
  given by its \<open>str()\<close>. \<open>ValueError_not_in_list x\<close> is the \<open>ValueError\<close> that
  \<open>list.index(x)\<close> raises, \<open>UnicodeDecodeError\<close> carries its message. \<open>raised\<close> adds what
  derives from \<open>BaseException\<close> only, which \<open>except Exception\<close> does not catch.
\<close>

datatype exn =
    AttributeError string string
  | IndexError
  | ValueError string
  | ValueError_not_in_list string
  | KeyError string
  | TypeError string
  | TclError string
  | UnicodeDecodeError string
  | TexTextCommandFailed string string string
  | OtherException string

datatype raised =
    Exc exn
  | SystemExit int
  | OtherBaseException string

record 'f host =
  py_float :: "string \<Rightarrow> 'f option"
  float_1_0 :: 'f
  py_repr :: "string \<Rightarrow> string"
  py_decode :: "string \<Rightarrow> string + string"
  tcl_of_float :: "'f \<Rightarrow> string"
  tcl_getboolean :: "'f pyval \<Rightarrow> bool option"

text \<open>
  \<open>py_float h s\<close> is the builtin \<open>float(s)\<close> (\<open>None\<close>: it raises \<open>ValueError\<close>),
  \<open>float_1_0 h\<close> the literal \<open>1.0\<close>, \<open>py_repr h s\<close> the builtin \<open>repr(s)\<close> of a string,
  \<open>py_decode h b\<close> is \<open>b.decode('utf-8')\<close> (\<open>Inl m\<close>: it raises \<open>UnicodeDecodeError\<close> with
  message \<open>m\<close>), \<open>tcl_of_float h x\<close> the text Tk inserts into an entry for the float \<open>x\<close>,
  and \<open>tcl_getboolean h v\<close> what a \<open>tk.BooleanVar\<close> that was set to \<open>v\<close> gives back from
  \<open>get()\<close> (\<open>None\<close>: Tcl rejects the value).
\<close>

definition quoted :: "string \<Rightarrow> string" where
  "quoted s = [CHR 0x27] @ s @ [CHR 0x27]"

text \<open>
  \<open>str(exception)\<close>. \<open>quoted\<close> puts a name between apostrophes; it is applied to the
  class, attribute and type names of this module only.
\<close>

fun py_str :: "'f host \<Rightarrow> exn \<Rightarrow> string" where
  "py_str h (AttributeError cls name) =
     quoted cls @ '' object has no attribute '' @ quoted name"
| "py_str h IndexError = ''list index out of range''"
| "py_str h (ValueError msg) = msg"
| "py_str h (ValueError_not_in_list x) = py_repr h x @ '' is not in list''"
| "py_str h (KeyError key) = py_repr h key"
| "py_str h (TypeError msg) = msg"
| "py_str h (TclError msg) = msg"
| "py_str h (UnicodeDecodeError msg) = msg"
| "py_str h (TexTextCommandFailed msg out err) = msg"
| "py_str h (OtherException msg) = msg"

type_synonym 'f settings = "string \<rightharpoonup> 'f pyval"

text \<open>
  Modelled from the spec: class \<open>Settings\<close> (settings.py) is not among the sources. The
  spec calls it a nested key-value store with at least a "gui" sub-section; \<open>has_key\<close>,
  \<open>get\<close> with a default, item assignment and item access are the four operations gui.py
  applies to it. Reading a missing key by item access is taken to raise \<open>KeyError\<close>.
\<close>

definition has_key :: "'f settings \<Rightarrow> string \<Rightarrow> bool" where
  "has_key cfg k = (cfg k \<noteq> None)"

definition settings_get :: "'f settings \<Rightarrow> string \<Rightarrow> 'f pyval \<Rightarrow> 'f pyval" where
  "settings_get cfg k dflt = (case cfg k of None \<Rightarrow> dflt | Some v \<Rightarrow> v)"

definition setitem :: "'f settings \<Rightarrow> string \<Rightarrow> 'f pyval \<Rightarrow> 'f settings" where
  "setitem cfg k v = cfg(k \<mapsto> v)"

definition getitem :: "'f settings \<Rightarrow> string \<Rightarrow> exn + 'f pyval" where
  "getitem cfg k = (case cfg k of None \<Rightarrow> Inl (KeyError k) | Some v \<Rightarrow> Inr v)"

text \<open>
  \<open>self._config["gui"].get(key, default)\<close> and \<open>self._config["gui"][key] = value\<close>: the
  item read comes first, then the method of the value read. A dictionary is mutated in
  place, so the store sees the new entry.
\<close>

definition type_name :: "'f pyval \<Rightarrow> string" where
  "type_name v = (case v of PyBool _ \<Rightarrow> ''bool'' | PyInt _ \<Rightarrow> ''int''
     | PyFloat _ \<Rightarrow> ''float'' | PyStr _ \<Rightarrow> ''str'' | PyDict _ \<Rightarrow> ''dict'')"

definition gui_get :: "'f settings \<Rightarrow> string \<Rightarrow> 'f pyval \<Rightarrow> exn + 'f pyval" where
  "gui_get cfg key dflt =
     (case getitem cfg ''gui'' of
        Inl e \<Rightarrow> Inl e
      | Inr (PyDict d) \<Rightarrow> Inr (case d key of None \<Rightarrow> dflt | Some v \<Rightarrow> v)
      | Inr v \<Rightarrow> Inl (AttributeError (type_name v) ''get''))"

definition gui_set :: "'f settings \<Rightarrow> string \<Rightarrow> 'f pyval \<Rightarrow> exn + 'f settings" where
  "gui_set cfg key val =
     (case getitem cfg ''gui'' of
        Inl e \<Rightarrow> Inl e
      | Inr (PyDict d) \<Rightarrow> Inr (cfg(''gui'' \<mapsto> PyDict (d(key \<mapsto> val))))
      | Inr v \<Rightarrow> Inl (TypeError (quoted (type_name v) @ '' object does not support item assignment'')))"

subsection \<open>Class constants and the base constructor\<close>

definition DEFAULT_WORDWRAP :: bool where
  "DEFAULT_WORDWRAP = False"

definition TEX_COMMANDS :: "string list" where
  "TEX_COMMANDS = [''pdflatex'', ''lualatex'', ''xelatex'']"

definition ALIGNMENT_LABELS :: "string list" where
  "ALIGNMENT_LABELS = [''top left'', ''top center'', ''top right'',
                       ''middle left'', ''middle center'', ''middle right'',
                       ''bottom left'', ''bottom center'', ''bottom right'']"

text \<open>
  Modelled from the spec: class \<open>TexTextEleMetaData\<close> (base.py) is not among the sources.
  The record has the attributes gui.py reads and writes: the spec's editable node
  metadata (source text, scale factor, alignment, preamble path, conversion command,
  stroke-to-path flag) and the version label.
\<close>

record 'f node_meta_data =
  node_textext_version :: string
  node_text :: string
  preamble :: string
  scale_factor :: 'f
  alignment :: string
  tex_command :: string
  stroke_to_path :: bool

text \<open>
  The attributes \<open>TexTextGuiBase.__init__\<close> assigns. \<open>convert_callback\<close> and
  \<open>preview_callback\<close>, set to \<open>None\<close> there, are never read again and are left out; the
  attribute \<open>text\<close> is \<open>self_text\<close> and \<open>_config\<close> is \<open>config\<close>.
\<close>

record 'f gui_base =
  textext_version :: string
  config :: "'f settings"
  global_scale_factor :: "'f pyval"
  node_scale_factor :: 'f
  current_alignment :: string
  preamble_file :: string
  current_convert_strokes_to_path :: bool
  self_text :: string
  current_texcmd :: string

definition init_base :: "'f host \<Rightarrow> string \<Rightarrow> 'f node_meta_data \<Rightarrow> 'f settings \<Rightarrow> 'f gui_base" where
  "init_base h version_str md cfg =
     (let cfg1 = (if \<not> has_key cfg ''gui'' then setitem cfg ''gui'' (PyDict Map.empty) else cfg)
      in \<lparr> textext_version = version_str,
           config = cfg1,
           global_scale_factor = settings_get cfg1 ''scale'' (PyFloat (float_1_0 h)),
           node_scale_factor = scale_factor md,
           current_alignment = alignment md,
           preamble_file = preamble md,
           current_convert_strokes_to_path = stroke_to_path md,
           self_text = (if length (node_text md) > 0 then node_text md else ''''),
           current_texcmd = (if tex_command md \<in> set TEX_COMMANDS then tex_command md
                             else TEX_COMMANDS ! 0) \<rparr>)"

subsection \<open>Observable effects\<close>

text \<open>
  What a handler does to the world outside the object: a message box
  (\<open>tk_msg_boxes.showerror(title, message)\<close>), a call of the convert callback with its
  arguments, an error dialog with its sections, and the request to leave the event loop
  (\<open>self._frame.quit()\<close>, \<open>Gtk.main_quit()\<close>). The TK error window has one text view per
  section (header, text); the GTK error dialog has a title, a message label and sections
  whose header is \<open>None\<close> for the one that is always open.
\<close>

type_synonym 'f convert_args = "string \<times> string \<times> 'f pyval \<times> string \<times> string \<times> bool"

datatype 'f event =
    ShowError string string
  | ConvertCall_tk "'f convert_args"
  | TkErrorDialog "(string \<times> string) list"
  | FrameQuit
  | ConvertCall_gtk "'f node_meta_data"
  | GtkErrorDialog string string "(string option \<times> string) list"
  | MainQuit

subsection \<open>Class TexTextGuiTK\<close>

datatype tk_state = NORMAL | DISABLED

datatype tk_wrap = tk_WORD | tk_NONE

text \<open>
  The object after \<open>show\<close> has built the window: the base attributes and the widgets, each
  widget by what it holds (an entry or spinbox its text, a \<open>BooleanVar\<close> or \<open>StringVar\<close> its
  value, a button its state, the radio buttons their value and state in creation order,
  the text box its content and wrap mode). The attribute \<open>_name\<close> is the field \<open>tk_name\<close>.
  Labels, packing and window geometry are presentation and have no field.
\<close>

record 'f gui_tk = "'f gui_base" +
  tk_convert_callback :: "'f convert_args \<Rightarrow> raised option"
  tk_preamble :: string
  tk_convert_strokes_to_path :: bool
  tk_tex_command_tk_str :: string
  tk_tex_command_radios :: "string list"
  tk_scale :: string
  tk_reset_button :: tk_state
  tk_alignment_tk_str :: string
  tk_alignment_radios :: "(string \<times> tk_state) list"
  tk_word_wrap_tkval :: bool
  tk_text_box :: string
  tk_text_box_wrap :: tk_wrap

type_synonym 'f tk_result = "raised option \<times> 'f event list \<times> 'f gui_tk"

definition cb_cancel_tk :: "'f gui_tk \<Rightarrow> 'f tk_result" where
  "cb_cancel_tk g = (Some (SystemExit 1), [], g)"

definition validate_spinbox_input ::
  "'f host \<Rightarrow> string \<Rightarrow> string \<Rightarrow> string \<Rightarrow> string \<Rightarrow> string \<Rightarrow> string \<Rightarrow> string \<Rightarrow> string \<Rightarrow> bool" where
  "validate_spinbox_input h d i P s S v V W =
     (if S = '''' \<or> P = '''' then True
      else (case py_float h P of Some _ \<Rightarrow> True | None \<Rightarrow> False))"

text \<open>
  The spinbox is created with \<open>validate="key"\<close>: every edit of its text, also one made by
  the program, first asks the validation command and is dropped when that returns false.
  \<open>spinbox_edit h d cur S P\<close> is the text after an edit of kind \<open>d\<close> that inserts or
  deletes \<open>S\<close> at index 0 and would turn \<open>cur\<close> into \<open>P\<close>.
\<close>

definition spinbox_edit :: "'f host \<Rightarrow> string \<Rightarrow> string \<Rightarrow> string \<Rightarrow> string \<Rightarrow> string" where
  "spinbox_edit h d cur S P =
     (if validate_spinbox_input h d ''0'' P cur S ''key'' ''key'' ''.!frame.!frame3.!spinbox''
      then P else cur)"

text \<open>
  \<open>f"{x:.3f}"\<close> in the two button labels: the label text itself is not kept, the
  exception the format raises for a value that is no number is.
\<close>

definition format_3f_error :: "'f pyval \<Rightarrow> exn option" where
  "format_3f_error v =
     (case v of
        PyStr _ \<Rightarrow> Some (ValueError (''Unknown format code '' @ quoted ''f'' @
                          '' for object of type '' @ quoted ''str''))
      | PyDict _ \<Rightarrow> Some (TypeError ''unsupported format string passed to dict.__format__'')
      | _ \<Rightarrow> None)"

definition alignment_index_list :: "nat list" where
  "alignment_index_list = [0, 3, 6, 1, 4, 7, 2, 5, 8]"

text \<open>
  \<open>show\<close> up to the call of \<open>mainloop()\<close>. The spinbox starts with the text of its lower
  bound \<open>from_=0.001\<close>; \<open>delete(0, "end")\<close> and \<open>insert(0, self.node_scale_factor)\<close> are
  validated edits. The label of the button "As previous" formats
  \<open>self.global_scale_factor\<close> (the label of the reset button formats the same value when
  the node's scale factor is zero, and a float otherwise).
\<close>

definition show_tk ::
  "'f host \<Rightarrow> 'f gui_base \<Rightarrow> ('f convert_args \<Rightarrow> raised option) \<Rightarrow> raised + 'f gui_tk" where
  "show_tk h b callback =
     (let scale0 = spinbox_edit h ''0'' ''0.001'' ''0.001'' '''';
          ins = tcl_of_float h (node_scale_factor b);
          scale1 = spinbox_edit h ''1'' scale0 ins (ins @ scale0);
          reset_state = (if self_text b = '''' then DISABLED else NORMAL);
          tk_state = (if self_text b = '''' then DISABLED else NORMAL)
      in case format_3f_error (global_scale_factor b) of
           Some e \<Rightarrow> Inl (Exc e)
         | None \<Rightarrow>
             (case gui_get (config b) ''word_wrap'' (PyBool DEFAULT_WORDWRAP) of
                Inl e \<Rightarrow> Inl (Exc e)
              | Inr ww \<Rightarrow>
                  (case tcl_getboolean h ww of
                     None \<Rightarrow> Inl (Exc (TclError ''expected boolean value''))
                   | Some wrap \<Rightarrow>
                       Inr \<lparr> textext_version = textext_version b,
                             config = config b,
                             global_scale_factor = global_scale_factor b,
                             node_scale_factor = node_scale_factor b,
                             current_alignment = current_alignment b,
                             preamble_file = preamble_file b,
                             current_convert_strokes_to_path = current_convert_strokes_to_path b,
                             self_text = self_text b,
                             current_texcmd = current_texcmd b,
                             tk_convert_callback = callback,
                             tk_preamble = preamble_file b,
                             tk_convert_strokes_to_path = current_convert_strokes_to_path b,
                             tk_tex_command_tk_str = current_texcmd b,
                             tk_tex_command_radios = TEX_COMMANDS,
                             tk_scale = scale1,
                             tk_reset_button = reset_state,
                             tk_alignment_tk_str = current_alignment b,
                             tk_alignment_radios =
                               map (\<lambda>ind. (ALIGNMENT_LABELS ! ind, tk_state)) alignment_index_list,
                             tk_word_wrap_tkval = wrap,
                             tk_text_box = self_text b,
                             tk_text_box_wrap = (if wrap then tk_WORD else tk_NONE) \<rparr>)))"

text \<open>
  \<open>self._text_box.get(1.0, tk.END)\<close>: a Tk text widget ends with a newline of its own,
  and the range up to \<open>END\<close> includes it.
\<close>

definition text_box_get :: "string \<Rightarrow> string" where
  "text_box_get content = content @ [CHR 0x0A]"

text \<open>
  The outputs of a \<open>TexTextCommandFailed\<close> in an error dialog, shared by both classes:
  \<open>if exception.stdout: add(header, exception.stdout.decode('utf-8'))\<close>, then the same
  for \<open>stderr\<close>. An output that is empty (or \<open>None\<close>) is skipped. The argument is decoded
  before the view is added, so a failing \<open>decode\<close> stops there: \<open>add_outputs\<close> returns the
  message of the \<open>UnicodeDecodeError\<close>, if one was raised, and the views added before it.
\<close>

fun add_outputs ::
  "'f host \<Rightarrow> (string \<times> string) list \<Rightarrow> string option \<times> (string \<times> string) list" where
  "add_outputs h [] = (None, [])"
| "add_outputs h ((header, bytes) # others) =
     (if bytes = [] then add_outputs h others
      else (case py_decode h bytes of
              Inl m \<Rightarrow> (Some m, [])
            | Inr decoded \<Rightarrow>
                (case add_outputs h others of
                   (failure, views) \<Rightarrow> (failure, (header, decoded) # views))))"

definition exception_outputs ::
  "'f host \<Rightarrow> string \<Rightarrow> string \<Rightarrow> exn \<Rightarrow> string option \<times> (string \<times> string) list" where
  "exception_outputs h stdout_header stderr_header exception =
     (case exception of
        TexTextCommandFailed msg out err \<Rightarrow>
          add_outputs h [(stdout_header, out), (stderr_header, err)]
      | _ \<Rightarrow> (None, []))"

text \<open>
  \<open>show_error_dialog\<close> of the TK class: the error window is created and the first text
  view shows \<open>str(exception)\<close> under the message text; then come the views of the
  outputs. When a \<open>decode\<close> fails, the window stays as far as it was built and the
  \<open>UnicodeDecodeError\<close> leaves the method. The parameter \<open>title\<close> is not used.
\<close>

definition show_error_dialog_tk ::
  "'f host \<Rightarrow> string \<Rightarrow> string \<Rightarrow> exn \<Rightarrow> raised option \<times> 'f event list" where
  "show_error_dialog_tk h title message_text exception =
     (case exception_outputs h ''Stdout:'' ''Stderr:'' exception of
        (failure, views) \<Rightarrow>
          (map_option (\<lambda>m. Exc (UnicodeDecodeError m)) failure,
           [TkErrorDialog ((message_text, py_str h exception) # views)]))"

definition cb_ok_tk :: "'f host \<Rightarrow> 'f gui_tk \<Rightarrow> 'f tk_result" where
  "cb_ok_tk h g =
     (case py_float h (tk_scale g) of
        None \<Rightarrow>
          (None,
           [ShowError ''Scale factor error''
              ''Please enter a valid floating point number for the scale factor!''],
           g)
      | Some x \<Rightarrow>
          (let g1 = g\<lparr>global_scale_factor := PyFloat x\<rparr>;
               g2 = g1\<lparr>self_text := text_box_get (tk_text_box g1)\<rparr>;
               g3 = g2\<lparr>preamble_file := tk_preamble g2\<rparr>;
               g4 = g3\<lparr>current_convert_strokes_to_path := tk_convert_strokes_to_path g3\<rparr>;
               args = (self_text g4, preamble_file g4, global_scale_factor g4,
                       tk_alignment_tk_str g4, tk_tex_command_tk_str g4,
                       current_convert_strokes_to_path g4)
           in case tk_convert_callback g4 args of
                None \<Rightarrow> (None, [ConvertCall_tk args, FrameQuit], g4)
              | Some (Exc error) \<Rightarrow>
                  (case show_error_dialog_tk h ''TexText Error''
                          ''Error occurred while converting text from Latex to SVG:'' error of
                     (r, evs) \<Rightarrow> (r, ConvertCall_tk args # evs, g4))
              | Some r \<Rightarrow> (Some r, [ConvertCall_tk args], g4)))"

text \<open>
  \<open>cb_word_wrap\<close> is the command of the "Word wrap" check button, whose variable is
  \<open>_word_wrap_tkval\<close>: a click first flips the variable, then runs the command.
\<close>

definition cb_word_wrap :: "'f gui_tk \<Rightarrow> 'f tk_result" where
  "cb_word_wrap g =
     (let g1 = g\<lparr>tk_text_box_wrap := (if tk_word_wrap_tkval g then tk_WORD else tk_NONE)\<rparr>
      in case gui_set (config g1) ''word_wrap'' (PyBool (tk_word_wrap_tkval g1)) of
           Inl e \<Rightarrow> (Some (Exc e), [], g1)
         | Inr cfg \<Rightarrow> (None, [], g1\<lparr>config := cfg\<rparr>))"

definition click_word_wrap_tk :: "'f gui_tk \<Rightarrow> 'f tk_result" where
  "click_word_wrap_tk g = cb_word_wrap (g\<lparr>tk_word_wrap_tkval := \<not> tk_word_wrap_tkval g\<rparr>)"

subsection \<open>Class TexTextGuiGTK\<close>

text \<open>
  Python's \<open>xs.index(x)\<close> (\<open>None\<close>: it raises \<open>ValueError\<close>), \<open>xs[i]\<close> for an integer
  that may be negative (\<open>None\<close>: \<open>IndexError\<close>) and \<open>str.lower()\<close> on the ASCII letters,
  which are the only ones in the strings it is applied to, the entries of \<open>TEX_COMMANDS\<close>.
\<close>

fun list_index :: "'a list \<Rightarrow> 'a \<Rightarrow> nat option" where
  "list_index [] x = None"
| "list_index (y # ys) x = (if y = x then Some 0 else map_option Suc (list_index ys x))"

definition py_getitem :: "'a list \<Rightarrow> int \<Rightarrow> 'a option" where
  "py_getitem xs i =
     (if 0 \<le> i \<and> i < int (length xs) then Some (xs ! nat i)
      else if - int (length xs) \<le> i \<and> i < 0 then Some (xs ! nat (int (length xs) + i))
      else None)"

definition lower_char :: "char \<Rightarrow> char" where
  "lower_char c =
     (case map_of (zip ''ABCDEFGHIJKLMNOPQRSTUVWXYZ'' ''abcdefghijklmnopqrstuvwxyz'') c of
        Some l \<Rightarrow> l
      | None \<Rightarrow> c)"

definition py_lower :: "string \<Rightarrow> string" where
  "py_lower s = map lower_char s"

datatype gtk_wrap = WrapMode_WORD | WrapMode_NONE

text \<open>
  The widgets \<open>create_window\<close> configures in the window it loads from the glade file, by
  the names it asks the builder for: the active index of the two combo boxes, the value
  of the spin button, the sensitivity of the reset button and of the alignment box, and
  the text of the buffer. Labels, tooltips, fonts and menu visibility have no field.
\<close>

record 'f glade_window =
  cmb_texcmd_active :: nat
  sbn_scale :: 'f
  btn_scalereset_sensitive :: bool
  cmb_align_active :: nat
  cmb_align_sensitive :: bool
  tbf_texcode :: string

definition create_window :: "'f gui_base \<Rightarrow> raised + 'f glade_window" where
  "create_window b =
     (case list_index TEX_COMMANDS (current_texcmd b) of
        None \<Rightarrow> Inl (Exc (ValueError_not_in_list (current_texcmd b)))
      | Some texcmd_index \<Rightarrow>
          (case format_3f_error (global_scale_factor b) of
             Some e \<Rightarrow> Inl (Exc e)
           | None \<Rightarrow>
               (case list_index ALIGNMENT_LABELS (current_alignment b) of
                  None \<Rightarrow> Inl (Exc (ValueError_not_in_list (current_alignment b)))
                | Some align_index \<Rightarrow>
                    (case gui_get (config b) ''close_shortcut'' (PyStr ''Escape'') of
                       Inl e \<Rightarrow> Inl (Exc e)
                     | Inr _ \<Rightarrow>
                         Inr \<lparr> cmb_texcmd_active = texcmd_index,
                               sbn_scale = node_scale_factor b,
                               btn_scalereset_sensitive = (self_text b \<noteq> ''''),
                               cmb_align_active = align_index,
                               cmb_align_sensitive = (self_text b \<noteq> ''''),
                               tbf_texcode = self_text b \<rparr>))))"

text \<open>
  The object of class \<open>TexTextGuiGTK\<close>. Its handlers read the attributes
  \<open>_source_buffer\<close>, \<open>_preamble_widget\<close>, \<open>_scale_adj\<close>, \<open>_conv_stroke2path\<close>,
  \<open>_texcmd_cbox\<close>, \<open>_alignment_combobox\<close> and \<open>_window\<close>, which no statement of the
  class assigns. Each is an optional field, \<open>None\<close> when the object has no such
  attribute, so that reading it raises \<open>AttributeError\<close>; a present one holds what the
  widget gives back (the buffer its text, the adjustment its value, a check button its
  state, a combo box its active index, which is -1 when nothing is selected). The
  preamble widget is a file chooser, whose \<open>get_filename()\<close> may be \<open>None\<close>, or an entry.
\<close>

datatype preamble_widget = FileChooser "string option" | Entry string

record 'f gui_gtk = "'f gui_base" +
  gtk_convert_callback :: "'f node_meta_data \<Rightarrow> raised option"
  gtk_source_buffer :: "string option"
  gtk_preamble_widget :: "preamble_widget option"
  gtk_scale_adj :: "'f option"
  gtk_conv_stroke2path :: "bool option"
  gtk_texcmd_cbox :: "int option"
  gtk_alignment_combobox :: "int option"
  gtk_window :: "unit option"

type_synonym 'f gtk_result = "raised option \<times> 'f event list \<times> 'f gui_gtk"

definition no_attribute :: "string \<Rightarrow> raised" where
  "no_attribute name = Exc (AttributeError ''TexTextGuiGTK'' name)"


text \<open>
  \<open>show_error_dialog\<close> of the GTK class opens \<open>Gtk.Dialog(title, self._window)\<close>, puts the
  message in bold into a label, \<open>str(exception)\<close> into the section without header and
  the outputs of a \<open>TexTextCommandFailed\<close> into sections of their own. The dialog is
  shown by \<open>dialog.show_all()\<close> and \<open>dialog.run()\<close>, the last two statements: when a
  \<open>decode\<close> fails before them, no dialog appears.
\<close>

definition show_error_dialog_gtk ::
  "'f host \<Rightarrow> 'f gui_gtk \<Rightarrow> string \<Rightarrow> string \<Rightarrow> exn \<Rightarrow> raised option \<times> 'f event list" where
  "show_error_dialog_gtk h g title message_text exception =
     (case gtk_window g of
        None \<Rightarrow> (Some (no_attribute ''_window''), [])
      | Some _ \<Rightarrow>
          (case exception_outputs h ''Stdout: <small><i>(click to expand)</i></small>''
                  ''Stderr: <small><i>(click to expand)</i></small>'' exception of
             (Some m, sections) \<Rightarrow> (Some (Exc (UnicodeDecodeError m)), [])
           | (None, sections) \<Rightarrow>
               (None,
                [GtkErrorDialog title (''<b>'' @ message_text @ ''</b>'')
                   ((None, py_str h exception) #
                    map (\<lambda>(header, decoded). (Some header, decoded)) sections)])))"

text \<open>
  The body of the \<open>try\<close> in \<open>cb_ok\<close> up to the call of the callback: a fresh
  \<open>TexTextEleMetaData\<close> is filled from the object and the two combo boxes.
\<close>

definition collect_meta_data :: "'f gui_gtk \<Rightarrow> 'f \<Rightarrow> exn + 'f node_meta_data" where
  "collect_meta_data g x =
     (case gtk_texcmd_cbox g of
        None \<Rightarrow> Inl (AttributeError ''TexTextGuiGTK'' ''_texcmd_cbox'')
      | Some i \<Rightarrow>
          (case py_getitem TEX_COMMANDS i of
             None \<Rightarrow> Inl IndexError
           | Some cmd \<Rightarrow>
               (case gtk_alignment_combobox g of
                  None \<Rightarrow> Inl (AttributeError ''TexTextGuiGTK'' ''_alignment_combobox'')
                | Some j \<Rightarrow>
                    (case py_getitem ALIGNMENT_LABELS j of
                       None \<Rightarrow> Inl IndexError
                     | Some label \<Rightarrow>
                         Inr \<lparr> node_textext_version = textext_version g,
                               node_text = self_text g,
                               preamble = preamble_file g,
                               scale_factor = x,
                               alignment = label,
                               tex_command = py_lower cmd,
                               stroke_to_path = current_convert_strokes_to_path g \<rparr>))))"

definition handle_error_gtk ::
  "'f host \<Rightarrow> 'f gui_gtk \<Rightarrow> 'f event list \<Rightarrow> exn \<Rightarrow> 'f gtk_result" where
  "handle_error_gtk h g before error =
     (case show_error_dialog_gtk h g ''TexText Error''
             ''Error occurred while converting text from Latex to SVG:'' error of
        (r, evs) \<Rightarrow> (r, before @ evs, g))"

definition cb_ok_gtk :: "'f host \<Rightarrow> 'f gui_gtk \<Rightarrow> 'f gtk_result" where
  "cb_ok_gtk h g =
     (case gtk_source_buffer g of
        None \<Rightarrow> (Some (no_attribute ''_source_buffer''), [], g)
      | Some buf \<Rightarrow>
          (let g1 = g\<lparr>self_text := buf\<rparr>
           in case gtk_preamble_widget g1 of
                None \<Rightarrow> (Some (no_attribute ''_preamble_widget''), [], g1)
              | Some pw \<Rightarrow>
                  (let g2 = g1\<lparr>preamble_file :=
                              (case pw of
                                 FileChooser fn \<Rightarrow>
                                   (case fn of None \<Rightarrow> ''''
                                    | Some f \<Rightarrow> (if f = '''' then '''' else f))
                               | Entry t \<Rightarrow> t)\<rparr>
                   in case gtk_scale_adj g2 of
                        None \<Rightarrow> (Some (no_attribute ''_scale_adj''), [], g2)
                      | Some x \<Rightarrow>
                          (let g3 = g2\<lparr>global_scale_factor := PyFloat x\<rparr>
                           in case gtk_conv_stroke2path g3 of
                                None \<Rightarrow> (Some (no_attribute ''_conv_stroke2path''), [], g3)
                              | Some s \<Rightarrow>
                                  (let g4 = g3\<lparr>current_convert_strokes_to_path := s\<rparr>
                                   in case collect_meta_data g4 x of
                                        Inl error \<Rightarrow> handle_error_gtk h g4 [] error
                                      | Inr md \<Rightarrow>
                                          (case gtk_convert_callback g4 md of
                                             None \<Rightarrow> (None, [ConvertCall_gtk md, MainQuit], g4)
                                           | Some (Exc error) \<Rightarrow>
                                               handle_error_gtk h g4 [ConvertCall_gtk md] error
                                           | Some r \<Rightarrow> (Some r, [ConvertCall_gtk md], g4)))))))"

definition on_window_delete :: "'f gui_gtk \<Rightarrow> 'f gtk_result" where
  "on_window_delete g = (None, [MainQuit], g)"

text \<open>
  The names bound in the bodies of the classes \<open>TexTextGuiGTK\<close> and \<open>TexTextGuiBase\<close>, and
  the attributes their \<open>__init__\<close> and \<open>show\<close> assign to the object.
\<close>

definition TexTextGuiGTK_names :: "string list" where
  "TexTextGuiGTK_names =
     [''__init__'', ''create_window'', ''show'', ''define_actions_textbuffer'',
      ''define_actions_view'', ''define_actions_gtksourceview_additions'',
      ''define_actions_settings'', ''set_monospace_font'', ''open_file_cb'',
      ''update_position_label'', ''load_file'', ''open_file'', ''numbers_toggled_cb'',
      ''auto_indent_toggled_cb'', ''insert_spaces_toggled_cb'', ''word_wrap_toggled_cb'',
      ''on_preview_background_chagned'', ''tabs_toggled_cb'', ''new_node_content_cb'',
      ''font_size_cb'', ''close_shortcut_cb'', ''confirm_close_toggled_cb'', ''cb_key_press'',
      ''cb_ok'', ''cb_cancel'', ''move_cursor_cb'', ''on_window_delete'', ''update_preview'',
      ''set_preview_image_from_file'', ''switch_preview_representation'',
      ''update_preview_representation'', ''clear_preamble'', ''set_preamble'',
      ''on_btn_scalereset_clicked'', ''on_btn_scaleprevious_clicked'', ''show_error_dialog'']"

definition TexTextGuiBase_names :: "string list" where
  "TexTextGuiBase_names =
     [''__metaclass__'', ''DEFAULT_WORDWRAP'', ''DEFAULT_SHOWLINENUMBERS'',
      ''DEFAULT_AUTOINDENT'', ''DEFAULT_INSERTSPACES'', ''DEFAULT_TABWIDTH'',
      ''DEFAULT_FONTSIZE'', ''DEFAULT_NEW_NODE_CONTENT'', ''DEFAULT_CLOSE_SHORTCUT'',
      ''DEFAULT_CONFIRM_CLOSE'', ''DEFAULT_PREVIEW_WHITE_BACKGROUND'', ''TEX_COMMANDS'',
      ''ALIGNMENT_LABELS'', ''FONT_SIZE'', ''NEW_NODE_CONTENT'', ''CLOSE_SHORTCUT'',
      ''CLOSE_SHORTCUT_TEXT'', ''__init__'', ''show'', ''show_error_dialog'', ''cb_cancel'',
      ''cb_ok'']"

definition gtk_instance_names :: "string list" where
  "gtk_instance_names =
     [''textext_version'', ''_config'', ''global_scale_factor'', ''node_scale_factor'',
      ''current_alignment'', ''preamble_file'', ''current_convert_strokes_to_path'', ''text'',
      ''current_texcmd'', ''convert_callback'', ''preview_callback'', ''signal_handlers'',
      ''_convert_callback'', ''_preview_callback'']"

definition gtk_hasattr :: "string \<Rightarrow> bool" where
  "gtk_hasattr name =
     (name \<in> set (gtk_instance_names @ TexTextGuiGTK_names @ TexTextGuiBase_names))"

text \<open>
  \<open>cb_cancel\<close> consists of the call \<open>self.window_deleted_cb(widget, None, None)\<close>. The
  attribute reference is evaluated first; the object has no attribute of that name
  (\<open>gtk_hasattr\<close>), so the reference raises and nothing is called.
\<close>

definition cb_cancel_gtk :: "'f gui_gtk \<Rightarrow> 'f gtk_result" where
  "cb_cancel_gtk g = (Some (no_attribute ''window_deleted_cb''), [], g)"

text \<open>
  \<open>word_wrap_toggled_cb(action, sourceview)\<close>: \<open>active\<close> is \<open>action.get_active()\<close>, the
  state of the toggle after the click; the source view is given by its wrap mode, and
  its new wrap mode is returned with the object.
\<close>

definition word_wrap_toggled_cb ::
  "'f gui_gtk \<Rightarrow> bool \<Rightarrow> gtk_wrap \<Rightarrow> raised option \<times> gtk_wrap \<times> 'f gui_gtk" where
  "word_wrap_toggled_cb g active sourceview =
     (let sourceview1 = (if active then WrapMode_WORD else WrapMode_NONE)
      in case gui_set (config g) ''word_wrap'' (PyBool active) of
           Inl e \<Rightarrow> (Some (Exc e), sourceview1, g)
         | Inr cfg \<Rightarrow> (None, sourceview1, g\<lparr>config := cfg\<rparr>))"

subsection \<open>Reading the effects, and concrete inputs\<close>

text \<open>
  \<open>tk_convert_calls\<close> are the argument tuples of the calls of the convert callback among
  the effects of a handler, in order.
\<close>

fun tk_convert_calls :: "'f event list \<Rightarrow> 'f convert_args list" where
  "tk_convert_calls [] = []"
| "tk_convert_calls (ConvertCall_tk a # evs) = a # tk_convert_calls evs"
| "tk_convert_calls (_ # evs) = tk_convert_calls evs"

definition arg_scale :: "'f convert_args \<Rightarrow> 'f pyval" where
  "arg_scale a = fst (snd (snd a))"

text \<open>
  Inputs at which the theorems below are evaluated. \<open>sample_host\<close> writes a float as its
  decimal text and knows the two literals \<open>1.0\<close> and \<open>2.5\<close>; it decodes ASCII bytes and
  rejects a byte whose top bit is set; its \<open>BooleanVar\<close> takes booleans only. \<open>sample_tk\<close> is a TK dialog whose user has edited every widget, with a
  given text in the scale field. \<open>sample_gtk\<close> is a GTK object that has the seven
  widget attributes the handlers read, which the class itself never assigns.
\<close>

definition sample_host :: "string host" where
  "sample_host =
     \<lparr> py_float = (\<lambda>s. if s = ''1.0'' \<or> s = ''2.5'' then Some s else None),
       float_1_0 = ''1.0'',
       py_repr = quoted,
       py_decode = (\<lambda>b. if list_ex digit7 b then Inl ''invalid start byte'' else Inr b),
       tcl_of_float = (\<lambda>x. x),
       tcl_getboolean = (\<lambda>v. case v of PyBool b \<Rightarrow> Some b | _ \<Rightarrow> None) \<rparr>"

definition sample_node :: "string \<Rightarrow> string \<Rightarrow> string \<Rightarrow> string node_meta_data" where
  "sample_node txt align cmd =
     \<lparr> node_textext_version = ''1.8.1'', node_text = txt, preamble = ''default_packages.tex'',
       scale_factor = ''2.5'', alignment = align, tex_command = cmd, stroke_to_path = False \<rparr>"

definition convert_ok :: "'a \<Rightarrow> raised option" where
  "convert_ok args = None"

definition convert_fails :: "'a \<Rightarrow> raised option" where
  "convert_fails args = Some (Exc (OtherException ''pdflatex failed''))"

definition sample_tk :: "string \<Rightarrow> (string convert_args \<Rightarrow> raised option) \<Rightarrow> string gui_tk" where
  "sample_tk scale_text callback =
     \<lparr> textext_version = ''1.8.1'',
       config = [''gui'' \<mapsto> PyDict Map.empty],
       global_scale_factor = PyFloat ''1.0'',
       node_scale_factor = ''2.5'',
       current_alignment = ''middle center'',
       preamble_file = ''default_packages.tex'',
       current_convert_strokes_to_path = False,
       self_text = ''x'',
       current_texcmd = ''pdflatex'',
       tk_convert_callback = callback,
       tk_preamble = ''my_preamble.tex'',
       tk_convert_strokes_to_path = True,
       tk_tex_command_tk_str = ''xelatex'',
       tk_tex_command_radios = TEX_COMMANDS,
       tk_scale = scale_text,
       tk_reset_button = NORMAL,
       tk_alignment_tk_str = ''top left'',
       tk_alignment_radios = map (\<lambda>ind. (ALIGNMENT_LABELS ! ind, NORMAL)) alignment_index_list,
       tk_word_wrap_tkval = False,
       tk_text_box = ''x + y'',
       tk_text_box_wrap = tk_NONE \<rparr>"

definition sample_gtk :: "(string node_meta_data \<Rightarrow> raised option) \<Rightarrow> string gui_gtk" where
  "sample_gtk callback =
     \<lparr> textext_version = ''1.8.1'',
       config = [''gui'' \<mapsto> PyDict Map.empty],
       global_scale_factor = PyFloat ''1.0'',
       node_scale_factor = ''2.5'',
       current_alignment = ''middle center'',
       preamble_file = ''default_packages.tex'',
       current_convert_strokes_to_path = False,
       self_text = ''x'',
       current_texcmd = ''pdflatex'',
       gtk_convert_callback = callback,
       gtk_source_buffer = Some ''x + y'',
       gtk_preamble_widget = Some (Entry ''my_preamble.tex''),
       gtk_scale_adj = Some ''2.5'',
       gtk_conv_stroke2path = Some True,
       gtk_texcmd_cbox = Some 1,
       gtk_alignment_combobox = Some 4,
       gtk_window = Some () \<rparr>"

section \<open>Properties\<close>

subsection \<open>Auxiliary facts\<close>

lemma show_tk_Inr:
  assumes "show_tk h b cb = Inr g"
  shows "tk_tex_command_tk_str g = current_texcmd b"
    and "tk_alignment_tk_str g = current_alignment b"
    and "tk_reset_button g = (if self_text b = '''' then DISABLED else NORMAL)"
    and "tk_alignment_radios g =
           map (\<lambda>ind. (ALIGNMENT_LABELS ! ind, if self_text b = '''' then DISABLED else NORMAL))
             alignment_index_list"
    and "tk_tex_command_radios g = TEX_COMMANDS"
  using assms
  by (auto simp add: show_tk_def Let_def split: option.splits sum.splits)

lemma list_index_Some:
  "list_index xs x = Some i \<Longrightarrow> i < length xs \<and> xs ! i = x"
proof (induction xs arbitrary: i)
  case Nil
  then show ?case by simp
next
  case (Cons y ys)
  then show ?case by (auto split: if_splits)
qed

lemma list_index_None:
  "list_index xs x = None \<longleftrightarrow> x \<notin> set xs"
  by (induction xs) auto

lemma create_window_Inr:
  assumes "create_window b = Inr w"
  shows "list_index TEX_COMMANDS (current_texcmd b) = Some (cmb_texcmd_active w)"
    and "list_index ALIGNMENT_LABELS (current_alignment b) = Some (cmb_align_active w)"
    and "btn_scalereset_sensitive w = (self_text b \<noteq> '''')"
    and "cmb_align_sensitive w = (self_text b \<noteq> '''')"
  using assms
  by (auto simp add: create_window_def split: option.splits sum.splits)

lemma create_window_bad_alignment:
  assumes "current_alignment b \<notin> set ALIGNMENT_LABELS"
  shows "\<exists>e. create_window b = Inl e"
proof -
  have "list_index ALIGNMENT_LABELS (current_alignment b) = None"
    using assms by (simp add: list_index_None)
  then show ?thesis
    by (simp add: create_window_def split: option.splits)
qed

lemma init_base_fields:
  "current_texcmd (init_base h v md cfg) =
     (if tex_command md \<in> set TEX_COMMANDS then tex_command md else ''pdflatex'')"
  "current_alignment (init_base h v md cfg) = alignment md"
  "self_text (init_base h v md cfg) = node_text md"
  by (simp_all add: init_base_def Let_def TEX_COMMANDS_def)

lemma window_deleted_cb_undefined: "\<not> gtk_hasattr ''window_deleted_cb''"
  by (simp add: gtk_hasattr_def gtk_instance_names_def TexTextGuiGTK_names_def
      TexTextGuiBase_names_def)

lemma gui_set_dict:
  "cfg ''gui'' = Some (PyDict d) \<Longrightarrow>
   gui_set cfg key val = Inr (cfg(''gui'' \<mapsto> PyDict (d(key \<mapsto> val))))"
  by (simp add: gui_set_def getitem_def)

lemma gui_get_after_set:
  "gui_get (cfg(''gui'' \<mapsto> PyDict (d(key \<mapsto> val)))) key dflt = Inr val"
  by (simp add: gui_get_def getitem_def)

lemma init_base_gui_dict:
  assumes "cfg ''gui'' = None \<or> (\<exists>d. cfg ''gui'' = Some (PyDict d))"
  shows "\<exists>d. config (init_base h v md cfg) ''gui'' = Some (PyDict d)"
  using assms
  by (auto simp add: init_base_def has_key_def setitem_def Let_def)

lemma gui_set_keeps_gui:
  "gui_set cfg key val = Inr cfg' \<Longrightarrow> \<exists>d. cfg' ''gui'' = Some (PyDict d)"
  by (auto simp add: gui_set_def getitem_def split: option.splits sum.splits pyval.splits)

lemma cb_ok_tk_parsed:
  assumes "py_float h (tk_scale g) = Some x"
  shows "\<exists>r rest.
     cb_ok_tk h g =
       (r,
        ConvertCall_tk (text_box_get (tk_text_box g), tk_preamble g, PyFloat x,
                        tk_alignment_tk_str g, tk_tex_command_tk_str g,
                        tk_convert_strokes_to_path g) # rest,
        g\<lparr>global_scale_factor := PyFloat x,
          self_text := text_box_get (tk_text_box g),
          preamble_file := tk_preamble g,
          current_convert_strokes_to_path := tk_convert_strokes_to_path g\<rparr>) \<and>
     tk_convert_calls rest = []"
  using assms
  by (auto simp add: cb_ok_tk_def Let_def show_error_dialog_tk_def
      split: option.splits raised.splits prod.splits)

lemma sample_show_tk:
  "\<exists>t. show_tk sample_host (init_base sample_host ''1.8.1'' (sample_node txt align cmd) Map.empty)
         convert_ok = Inr t"
  by (simp add: show_tk_def init_base_def Let_def sample_host_def sample_node_def has_key_def
      setitem_def settings_get_def format_3f_error_def gui_get_def getitem_def DEFAULT_WORDWRAP_def)

lemma sample_create_window:
  "align \<in> set ALIGNMENT_LABELS \<Longrightarrow>
   \<exists>w. create_window (init_base sample_host ''1.8.1'' (sample_node txt align cmd) Map.empty) = Inr w"
  by (auto simp add: create_window_def init_base_def Let_def sample_host_def sample_node_def
      has_key_def setitem_def settings_get_def format_3f_error_def gui_get_def getitem_def
      TEX_COMMANDS_def list_index_None split: option.splits)

lemma cb_ok_tk_events:
  assumes "cb_ok_tk h g = (r, evs, g')" and "ConvertCall_tk a \<in> set evs"
  shows "\<exists>x. py_float h (tk_scale g) = Some x \<and>
     a = (text_box_get (tk_text_box g), tk_preamble g, PyFloat x,
          tk_alignment_tk_str g, tk_tex_command_tk_str g, tk_convert_strokes_to_path g)"
  using assms
  by (auto simp add: cb_ok_tk_def Let_def show_error_dialog_tk_def
      split: option.splits raised.splits prod.splits)

lemma cb_ok_tk_raises:
  assumes "cb_ok_tk h g = (r, evs, g')" and "ConvertCall_tk a \<in> set evs"
    and "tk_convert_callback g a = Some (Exc e)"
  shows "r = map_option (\<lambda>m. Exc (UnicodeDecodeError m))
               (fst (exception_outputs h ''Stdout:'' ''Stderr:'' e)) \<and>
     evs = [ConvertCall_tk a,
            TkErrorDialog
              ((''Error occurred while converting text from Latex to SVG:'', py_str h e) #
               snd (exception_outputs h ''Stdout:'' ''Stderr:'' e))] \<and>
     FrameQuit \<notin> set evs"
proof -
  from cb_ok_tk_events [OF assms(1,2)] obtain x where
    x: "py_float h (tk_scale g) = Some x" and
    a: "a = (text_box_get (tk_text_box g), tk_preamble g, PyFloat x,
          tk_alignment_tk_str g, tk_tex_command_tk_str g, tk_convert_strokes_to_path g)"
    by blast
  from assms(1) assms(3) x a show ?thesis
    by (auto simp add: cb_ok_tk_def Let_def show_error_dialog_tk_def split: prod.splits)
qed

lemma exception_outputs_plain:
  "exception_outputs h so se (OtherException msg) = (None, [])"
  by (simp add: exception_outputs_def)


lemma show_error_dialog_gtk_no_window:
  "gtk_window g = None \<Longrightarrow>
   show_error_dialog_gtk h g title message_text e =
     (Some (Exc (AttributeError ''TexTextGuiGTK'' ''_window'')), [])"
  by (simp add: show_error_dialog_gtk_def no_attribute_def)

lemma cb_ok_gtk_no_window:
  assumes "gtk_window g = None"
  shows "GtkErrorDialog title message sections \<notin> set (fst (snd (cb_ok_gtk h g)))"
  using assms
  by (auto simp add: cb_ok_gtk_def Let_def handle_error_gtk_def show_error_dialog_gtk_no_window
      split: option.splits sum.splits raised.splits)

lemma cb_ok_tk_raises_sample:
  "\<exists>t'. cb_ok_tk sample_host (sample_tk ''2.5'' convert_fails) =
     (None,
      [ConvertCall_tk (''x + y'' @ [CHR 0x0A], ''my_preamble.tex'', PyFloat ''2.5'', ''top left'',
         ''xelatex'', True),
       TkErrorDialog [(''Error occurred while converting text from Latex to SVG:'', ''pdflatex failed'')]],
      t')"
  by (simp add: cb_ok_tk_def Let_def sample_tk_def sample_host_def convert_fails_def
      show_error_dialog_tk_def exception_outputs_def text_box_get_def)

subsection \<open>The constructor\<close>

text \<open>
  Claim C10. Whatever configuration store the constructor is given, the store of the
  new object has the key "gui": a store without the key gets an empty dictionary under
  it and is otherwise the same, a store with the key is unchanged. Item access to "gui"
  therefore finds the sub-section.
\<close>

theorem init_base_gui_section:
  "has_key (config (init_base h v md cfg)) ''gui'' \<and>
   config (init_base h v md cfg) =
     (if has_key cfg ''gui'' then cfg else cfg(''gui'' \<mapsto> PyDict Map.empty)) \<and>
   getitem (config (init_base h v md cfg)) ''gui'' =
     Inr (case cfg ''gui'' of None \<Rightarrow> PyDict Map.empty | Some sub \<Rightarrow> sub)"
  by (simp add: init_base_def has_key_def setitem_def getitem_def Let_def split: option.splits)

text \<open>
  Claim C1, as the code has it. The constructor replaces a conversion command outside
  \<open>TEX_COMMANDS\<close> by the first entry, \<open>pdflatex\<close>, and keeps one inside; the command
  selector of either dialog then holds an entry of \<open>TEX_COMMANDS\<close>. The alignment is taken
  over as stored: the TK selector variable holds it whatever it is, and a GTK window
  that \<open>create_window\<close> has built selects its index among \<open>ALIGNMENT_LABELS\<close>.
\<close>

theorem texcmd_fallback_alignment_kept:
  "current_texcmd (init_base h v md cfg) =
     (if tex_command md \<in> set TEX_COMMANDS then tex_command md else ''pdflatex'') \<and>
   current_texcmd (init_base h v md cfg) \<in> set TEX_COMMANDS \<and>
   current_alignment (init_base h v md cfg) = alignment md \<and>
   (\<forall>g. show_tk h (init_base h v md cfg) cb = Inr g \<longrightarrow>
      tk_tex_command_tk_str g \<in> set (tk_tex_command_radios g) \<and>
      tk_tex_command_radios g = TEX_COMMANDS \<and>
      tk_alignment_tk_str g = alignment md) \<and>
   (\<forall>w. create_window (init_base h v md cfg) = Inr w \<longrightarrow>
      cmb_texcmd_active w < length TEX_COMMANDS \<and>
      TEX_COMMANDS ! cmb_texcmd_active w = current_texcmd (init_base h v md cfg) \<and>
      cmb_align_active w < length ALIGNMENT_LABELS \<and>
      ALIGNMENT_LABELS ! cmb_align_active w = alignment md)"
proof -
  let ?b = "init_base h v md cfg"
  have cmd: "current_texcmd ?b \<in> set TEX_COMMANDS"
    by (simp add: init_base_fields) (simp add: TEX_COMMANDS_def)
  have tk: "\<forall>g. show_tk h ?b cb = Inr g \<longrightarrow>
      tk_tex_command_tk_str g \<in> set (tk_tex_command_radios g) \<and>
      tk_tex_command_radios g = TEX_COMMANDS \<and>
      tk_alignment_tk_str g = alignment md"
  proof (intro allI impI)
    fix g
    assume g: "show_tk h ?b cb = Inr g"
    show "tk_tex_command_tk_str g \<in> set (tk_tex_command_radios g) \<and>
      tk_tex_command_radios g = TEX_COMMANDS \<and>
      tk_alignment_tk_str g = alignment md"
      using cmd show_tk_Inr(1) [OF g] show_tk_Inr(2) [OF g] show_tk_Inr(5) [OF g]
      by (simp add: init_base_fields(2))
  qed
  have gtk: "\<forall>w. create_window ?b = Inr w \<longrightarrow>
      cmb_texcmd_active w < length TEX_COMMANDS \<and>
      TEX_COMMANDS ! cmb_texcmd_active w = current_texcmd ?b \<and>
      cmb_align_active w < length ALIGNMENT_LABELS \<and>
      ALIGNMENT_LABELS ! cmb_align_active w = alignment md"
  proof (intro allI impI)
    fix w
    assume w: "create_window ?b = Inr w"
    from create_window_Inr(1) [OF w] create_window_Inr(2) [OF w]
    show "cmb_texcmd_active w < length TEX_COMMANDS \<and>
      TEX_COMMANDS ! cmb_texcmd_active w = current_texcmd ?b \<and>
      cmb_align_active w < length ALIGNMENT_LABELS \<and>
      ALIGNMENT_LABELS ! cmb_align_active w = alignment md"
      by (auto dest!: list_index_Some simp add: init_base_fields(2))
  qed
  have f1: "current_texcmd ?b =
     (if tex_command md \<in> set TEX_COMMANDS then tex_command md else ''pdflatex'')"
    by (rule init_base_fields(1))
  have f3: "current_alignment ?b = alignment md"
    by (rule init_base_fields(2))
  from f1 cmd f3 tk gtk show ?thesis
    by (intro conjI)
qed

theorem texcmd_fallback_alignment_kept_witness:
  "current_texcmd (init_base sample_host ''1.8.1'' (sample_node ''x'' ''center'' ''latex'') Map.empty)
     = ''pdflatex'' \<and>
   (\<exists>t. show_tk sample_host
          (init_base sample_host ''1.8.1'' (sample_node ''x'' ''center'' ''latex'') Map.empty) convert_ok
          = Inr t \<and>
        tk_tex_command_tk_str t = ''pdflatex'' \<and> tk_alignment_tk_str t = ''center'') \<and>
   (\<exists>w. create_window
          (init_base sample_host ''1.8.1'' (sample_node ''x'' ''top right'' ''xelatex'') Map.empty) = Inr w \<and>
        cmb_texcmd_active w = 2 \<and> cmb_align_active w = 2)"
proof -
  let ?bad = "sample_node ''x'' ''center'' ''latex''"
  let ?good = "sample_node ''x'' ''top right'' ''xelatex''"
  note bad = texcmd_fallback_alignment_kept [of sample_host "''1.8.1''" ?bad Map.empty convert_ok]
  note good = texcmd_fallback_alignment_kept [of sample_host "''1.8.1''" ?good Map.empty convert_ok]
  have c1: "current_texcmd (init_base sample_host ''1.8.1'' ?bad Map.empty) = ''pdflatex''"
    using bad [THEN conjunct1] by (simp add: sample_node_def TEX_COMMANDS_def)
  obtain t where t: "show_tk sample_host (init_base sample_host ''1.8.1'' ?bad Map.empty) convert_ok = Inr t"
    using sample_show_tk by blast
  have c2: "tk_tex_command_tk_str t = ''pdflatex'' \<and> tk_alignment_tk_str t = ''center''"
    using bad [THEN conjunct2, THEN conjunct2, THEN conjunct2, THEN conjunct1, rule_format, OF t]
      show_tk_Inr(1) [OF t] c1
    by (simp add: sample_node_def)
  have inl: "''top right'' \<in> set ALIGNMENT_LABELS"
    by (simp add: ALIGNMENT_LABELS_def)
  obtain w where w: "create_window (init_base sample_host ''1.8.1'' ?good Map.empty) = Inr w"
    using sample_create_window [OF inl] by blast
  from good [THEN conjunct2, THEN conjunct2, THEN conjunct2, THEN conjunct2,
      rule_format, OF w] good [THEN conjunct1]
  have idx: "cmb_texcmd_active w < 3 \<and> TEX_COMMANDS ! cmb_texcmd_active w = ''xelatex'' \<and>
      cmb_align_active w < 9 \<and> ALIGNMENT_LABELS ! cmb_align_active w = ''top right''"
    by (simp add: sample_node_def TEX_COMMANDS_def ALIGNMENT_LABELS_def)
  have c4: "cmb_texcmd_active w = 2"
  proof -
    from idx have "cmb_texcmd_active w \<in> {0, 1, 2}" by auto
    with idx show ?thesis by (auto simp add: TEX_COMMANDS_def)
  qed
  have c5: "cmb_align_active w = 2"
  proof -
    from idx have "cmb_align_active w \<in> {0, 1, 2, 3, 4, 5, 6, 7, 8}" by auto
    with idx show ?thesis by (auto simp add: ALIGNMENT_LABELS_def)
  qed
  from c1 t c2 w c4 c5 show ?thesis by blast
qed

text \<open>
  The claim as stated asks the same fallback of the alignment. A node whose stored
  alignment is \<open>center\<close>, not one of the nine labels, keeps it through the constructor,
  and the TK alignment selector then holds \<open>center\<close>, not \<open>top left\<close>.
\<close>

theorem alignment_fallback_counterexample:
  "alignment (sample_node ''x'' ''center'' ''latex'') \<notin> set ALIGNMENT_LABELS \<and>
   current_alignment (init_base sample_host ''1.8.1'' (sample_node ''x'' ''center'' ''latex'') Map.empty)
     = ''center'' \<and>
   ''center'' \<noteq> ALIGNMENT_LABELS ! 0 \<and>
   map_sum id tk_alignment_tk_str
     (show_tk sample_host
        (init_base sample_host ''1.8.1'' (sample_node ''x'' ''center'' ''latex'') Map.empty) convert_ok)
     = Inr ''center''"
  by (simp add: sample_node_def ALIGNMENT_LABELS_def init_base_def Let_def show_tk_def
      sample_host_def has_key_def setitem_def settings_get_def format_3f_error_def gui_get_def
      getitem_def DEFAULT_WORDWRAP_def)

subsection \<open>Building the window\<close>

text \<open>
  Claim C7. For a node whose text is empty, the dialog that has been built shows the
  reset button and the alignment control disabled: in the TK dialog the button and each
  of the nine radio buttons are \<open>DISABLED\<close>, in the GTK window the button and the
  alignment box are insensitive. For a node with text they are \<open>NORMAL\<close>, respectively
  sensitive.
\<close>

theorem controls_disabled_for_empty_text:
  "(\<forall>t. show_tk h (init_base h v md cfg) cb = Inr t \<longrightarrow>
      tk_reset_button t = (if node_text md = '''' then DISABLED else NORMAL) \<and>
      map fst (tk_alignment_radios t) = map (\<lambda>ind. ALIGNMENT_LABELS ! ind) alignment_index_list \<and>
      (\<forall>radio \<in> set (tk_alignment_radios t).
         snd radio = (if node_text md = '''' then DISABLED else NORMAL))) \<and>
   (\<forall>w. create_window (init_base h v md cfg) = Inr w \<longrightarrow>
      btn_scalereset_sensitive w = (node_text md \<noteq> '''') \<and>
      cmb_align_sensitive w = (node_text md \<noteq> ''''))"
proof -
  let ?b = "init_base h v md cfg"
  have tk: "\<forall>t. show_tk h ?b cb = Inr t \<longrightarrow>
      tk_reset_button t = (if node_text md = '''' then DISABLED else NORMAL) \<and>
      map fst (tk_alignment_radios t) = map (\<lambda>ind. ALIGNMENT_LABELS ! ind) alignment_index_list \<and>
      (\<forall>radio \<in> set (tk_alignment_radios t).
         snd radio = (if node_text md = '''' then DISABLED else NORMAL))"
  proof (intro allI impI)
    fix t
    assume t: "show_tk h ?b cb = Inr t"
    show "tk_reset_button t = (if node_text md = '''' then DISABLED else NORMAL) \<and>
      map fst (tk_alignment_radios t) = map (\<lambda>ind. ALIGNMENT_LABELS ! ind) alignment_index_list \<and>
      (\<forall>radio \<in> set (tk_alignment_radios t).
         snd radio = (if node_text md = '''' then DISABLED else NORMAL))"
      using show_tk_Inr(3) [OF t] show_tk_Inr(4) [OF t]
      by (auto simp add: init_base_fields(3) comp_def)
  qed
  have gtk: "\<forall>w. create_window ?b = Inr w \<longrightarrow>
      btn_scalereset_sensitive w = (node_text md \<noteq> '''') \<and>
      cmb_align_sensitive w = (node_text md \<noteq> '''')"
  proof (intro allI impI)
    fix w
    assume w: "create_window ?b = Inr w"
    show "btn_scalereset_sensitive w = (node_text md \<noteq> '''') \<and>
      cmb_align_sensitive w = (node_text md \<noteq> '''')"
      using create_window_Inr(3) [OF w] create_window_Inr(4) [OF w]
      by (simp add: init_base_fields(3))
  qed
  from tk gtk show ?thesis by (intro conjI)
qed

theorem controls_disabled_for_empty_text_witness:
  "(\<exists>t. show_tk sample_host
           (init_base sample_host ''1.8.1'' (sample_node '''' ''middle center'' ''pdflatex'') Map.empty)
           convert_ok = Inr t \<and>
        tk_reset_button t = DISABLED \<and>
        tk_alignment_radios t =
          [(''top left'', DISABLED), (''middle left'', DISABLED), (''bottom left'', DISABLED),
           (''top center'', DISABLED), (''middle center'', DISABLED), (''bottom center'', DISABLED),
           (''top right'', DISABLED), (''middle right'', DISABLED), (''bottom right'', DISABLED)]) \<and>
   (\<exists>w. create_window
           (init_base sample_host ''1.8.1'' (sample_node '''' ''middle center'' ''pdflatex'') Map.empty)
           = Inr w \<and>
        \<not> btn_scalereset_sensitive w \<and> \<not> cmb_align_sensitive w) \<and>
   (\<exists>t. show_tk sample_host
           (init_base sample_host ''1.8.1'' (sample_node ''x'' ''middle center'' ''pdflatex'') Map.empty)
           convert_ok = Inr t \<and>
        tk_reset_button t = NORMAL \<and>
        (\<forall>radio \<in> set (tk_alignment_radios t). snd radio = NORMAL)) \<and>
   (\<exists>w. create_window
           (init_base sample_host ''1.8.1'' (sample_node ''x'' ''middle center'' ''pdflatex'') Map.empty)
           = Inr w \<and>
        btn_scalereset_sensitive w \<and> cmb_align_sensitive w)"
proof -
  let ?e = "init_base sample_host ''1.8.1'' (sample_node '''' ''middle center'' ''pdflatex'') Map.empty"
  let ?x = "init_base sample_host ''1.8.1'' (sample_node ''x'' ''middle center'' ''pdflatex'') Map.empty"
  have al: "''middle center'' \<in> set ALIGNMENT_LABELS" by (simp add: ALIGNMENT_LABELS_def)
  obtain te where te: "show_tk sample_host ?e convert_ok = Inr te" using sample_show_tk by blast
  obtain tx where tx: "show_tk sample_host ?x convert_ok = Inr tx" using sample_show_tk by blast
  obtain we where we: "create_window ?e = Inr we" using sample_create_window [OF al] by blast
  obtain wx where wx: "create_window ?x = Inr wx" using sample_create_window [OF al] by blast
  note ce = controls_disabled_for_empty_text
    [of sample_host "''1.8.1''" "sample_node '''' ''middle center'' ''pdflatex''" Map.empty convert_ok]
  note cx = controls_disabled_for_empty_text
    [of sample_host "''1.8.1''" "sample_node ''x'' ''middle center'' ''pdflatex''" Map.empty convert_ok]
  have e1: "tk_reset_button te = DISABLED"
    using ce [THEN conjunct1, rule_format, OF te] by (simp add: sample_node_def)
  have e2: "map fst (tk_alignment_radios te) =
      [''top left'', ''middle left'', ''bottom left'', ''top center'', ''middle center'',
       ''bottom center'', ''top right'', ''middle right'', ''bottom right'']"
    using ce [THEN conjunct1, rule_format, OF te]
    by (simp add: ALIGNMENT_LABELS_def alignment_index_list_def)
  have e3: "\<forall>radio \<in> set (tk_alignment_radios te). snd radio = DISABLED"
    using ce [THEN conjunct1, rule_format, OF te] by (simp add: sample_node_def)
  have e4: "tk_alignment_radios te =
          [(''top left'', DISABLED), (''middle left'', DISABLED), (''bottom left'', DISABLED),
           (''top center'', DISABLED), (''middle center'', DISABLED), (''bottom center'', DISABLED),
           (''top right'', DISABLED), (''middle right'', DISABLED), (''bottom right'', DISABLED)]"
  proof -
    have "tk_alignment_radios te = zip (map fst (tk_alignment_radios te)) (map snd (tk_alignment_radios te))"
      by (simp add: zip_map_fst_snd)
    moreover have "map snd (tk_alignment_radios te) = replicate (length (tk_alignment_radios te)) DISABLED"
      using e3 by (simp add: map_replicate_const [symmetric] cong: map_cong)
    moreover have "length (tk_alignment_radios te) = 9"
      using arg_cong [OF e2, of length] by simp
    ultimately show ?thesis using e2 by (simp add: eval_nat_numeral)
  qed
  have e5: "\<not> btn_scalereset_sensitive we \<and> \<not> cmb_align_sensitive we"
    using ce [THEN conjunct2, rule_format, OF we] by (simp add: sample_node_def)
  have x1: "tk_reset_button tx = NORMAL \<and> (\<forall>radio \<in> set (tk_alignment_radios tx). snd radio = NORMAL)"
    using cx [THEN conjunct1, rule_format, OF tx] by (simp add: sample_node_def)
  have x2: "btn_scalereset_sensitive wx \<and> cmb_align_sensitive wx"
    using cx [THEN conjunct2, rule_format, OF wx] by (simp add: sample_node_def)
  from te tx we wx e1 e4 e5 x1 x2 show ?thesis by blast
qed


subsection \<open>The scale field\<close>

text \<open>
  Claim C8, as the code has it. \<open>validate_spinbox_input\<close> accepts an edit exactly when
  the inserted string \<open>S\<close> is empty, or the resulting content \<open>P\<close> is empty, or \<open>P\<close> parses
  as a float. An edit with a non-empty inserted string whose result is neither empty nor
  a float is rejected.
\<close>

theorem validate_spinbox_input_accepts:
  "validate_spinbox_input h d i P s S v V W =
     (S = '''' \<or> P = '''' \<or> (\<exists>x. py_float h P = Some x)) \<and>
   (S \<noteq> '''' \<longrightarrow> P \<noteq> '''' \<longrightarrow> py_float h P = None \<longrightarrow>
      \<not> validate_spinbox_input h d i P s S v V W)"
  by (auto simp add: validate_spinbox_input_def split: option.splits)

theorem validate_spinbox_input_accepts_witness:
  "''x'' \<noteq> '''' \<and> ''2.5x'' \<noteq> '''' \<and> py_float sample_host ''2.5x'' = None \<and>
   \<not> validate_spinbox_input sample_host ''1'' ''3'' ''2.5x'' ''2.5'' ''x'' ''key'' ''key'' ''.!spinbox'' \<and>
   validate_spinbox_input sample_host ''1'' ''2'' ''2.5'' ''2.'' ''5'' ''key'' ''key'' ''.!spinbox''"
proof -
  have a: "''x'' \<noteq> ''''" and b: "''2.5x'' \<noteq> ''''" by simp_all
  have c: "py_float sample_host ''2.5x'' = None" by (simp add: sample_host_def)
  have d: "\<exists>x. py_float sample_host ''2.5'' = Some x" by (simp add: sample_host_def)
  from validate_spinbox_input_accepts
    [of sample_host "''1''" "''3''" "''2.5x''" "''2.5''" "''x''" "''key''" "''key''" "''.!spinbox''"]
    a b c
  have r: "\<not> validate_spinbox_input sample_host ''1'' ''3'' ''2.5x'' ''2.5'' ''x'' ''key'' ''key'' ''.!spinbox''"
    by blast
  from validate_spinbox_input_accepts
    [of sample_host "''1''" "''2''" "''2.5''" "''2.''" "''5''" "''key''" "''key''" "''.!spinbox''"]
    d
  have acc: "validate_spinbox_input sample_host ''1'' ''2'' ''2.5'' ''2.'' ''5'' ''key'' ''key'' ''.!spinbox''"
    by blast
  from a b c r acc show ?thesis by blast
qed


text \<open>
  The claim's last clause, that every edit with a non-empty, non-numeric result is
  rejected, fails where the inserted string is empty: the first test of the function
  accepts the edit without looking at the result.
\<close>

theorem validate_spinbox_input_counterexample:
  "validate_spinbox_input sample_host ''-1'' ''-1'' ''abc'' ''abc'' '''' ''key'' ''forced'' ''.!spinbox'' \<and>
   ''abc'' \<noteq> '''' \<and> py_float sample_host ''abc'' = None"
  by (simp add: validate_spinbox_input_def sample_host_def)


subsection \<open>Confirming in the TK dialog\<close>

text \<open>
  Claim C2. When the text of the scale field is no float, \<open>cb_ok\<close> returns normally, its
  only effect is the message box with the numeric-format error (so the convert callback
  is not called and the event loop is not left), and the object is unchanged, the stored
  text, preamble file and stroke-to-path flag included.
\<close>

theorem cb_ok_tk_malformed_scale:
  "py_float h (tk_scale g) = None \<Longrightarrow>
   cb_ok_tk h g =
     (None,
      [ShowError ''Scale factor error''
         ''Please enter a valid floating point number for the scale factor!''],
      g)"
  by (simp add: cb_ok_tk_def)

theorem cb_ok_tk_malformed_scale_witness:
  "py_float sample_host (tk_scale (sample_tk ''2,5'' convert_ok)) = None \<and>
   cb_ok_tk sample_host (sample_tk ''2,5'' convert_ok) =
     (None,
      [ShowError ''Scale factor error''
         ''Please enter a valid floating point number for the scale factor!''],
      sample_tk ''2,5'' convert_ok) \<and>
   tk_convert_calls (fst (snd (cb_ok_tk sample_host (sample_tk ''2,5'' convert_ok)))) = [] \<and>
   FrameQuit \<notin> set (fst (snd (cb_ok_tk sample_host (sample_tk ''2,5'' convert_ok))))"
proof -
  have h: "py_float sample_host (tk_scale (sample_tk ''2,5'' convert_ok)) = None"
    by (simp add: sample_host_def sample_tk_def)
  show ?thesis
    using h cb_ok_tk_malformed_scale [OF h] by simp
qed

text \<open>
  Claim C5. When the text of the scale field is a float, \<open>cb_ok\<close> calls the convert
  callback once, and the scale argument of that call is the float the text parses to.
\<close>

theorem cb_ok_tk_scale_passed:
  "py_float h (tk_scale g) = Some x \<Longrightarrow>
   map arg_scale (tk_convert_calls (fst (snd (cb_ok_tk h g)))) = [PyFloat x]"
  using cb_ok_tk_parsed [of h g x] by (auto simp add: arg_scale_def)

theorem cb_ok_tk_scale_passed_witness:
  "py_float sample_host (tk_scale (sample_tk ''2.5'' convert_ok)) = Some ''2.5'' \<and>
   map arg_scale (tk_convert_calls (fst (snd (cb_ok_tk sample_host (sample_tk ''2.5'' convert_ok))))) =
     [PyFloat ''2.5'']"
proof -
  have h: "py_float sample_host (tk_scale (sample_tk ''2.5'' convert_ok)) = Some ''2.5''"
    by (simp add: sample_host_def sample_tk_def)
  show ?thesis
    using h cb_ok_tk_scale_passed [OF h] by simp
qed

text \<open>
  Claim C9. Once the scale field has parsed, the object that \<open>cb_ok\<close> leaves behind holds
  the widget values in \<open>global_scale_factor\<close>, \<open>text\<close>, \<open>preamble_file\<close> and
  \<open>current_convert_strokes_to_path\<close>, and the one call of the convert callback received
  exactly these new values: they were stored before the call. Nothing is assumed about
  what the callback does, so the fields keep the new values also when it raises.
\<close>

theorem cb_ok_tk_fields_kept:
  "py_float h (tk_scale g) = Some x \<Longrightarrow> cb_ok_tk h g = (r, evs, g') \<Longrightarrow>
   global_scale_factor g' = PyFloat x \<and>
   self_text g' = text_box_get (tk_text_box g) \<and>
   preamble_file g' = tk_preamble g \<and>
   current_convert_strokes_to_path g' = tk_convert_strokes_to_path g \<and>
   tk_convert_calls evs =
     [(self_text g', preamble_file g', global_scale_factor g', tk_alignment_tk_str g,
       tk_tex_command_tk_str g, current_convert_strokes_to_path g')]"
  using cb_ok_tk_parsed [of h g x] by auto

theorem cb_ok_tk_fields_kept_witness:
  "py_float sample_host (tk_scale (sample_tk ''2.5'' convert_fails)) = Some ''2.5'' \<and>
   (\<exists>evs g'. cb_ok_tk sample_host (sample_tk ''2.5'' convert_fails) = (None, evs, g') \<and>
      global_scale_factor g' = PyFloat ''2.5'' \<and>
      self_text g' = ''x + y'' @ [CHR 0x0A] \<and>
      preamble_file g' = ''my_preamble.tex'' \<and>
      current_convert_strokes_to_path g' = True \<and>
      tk_convert_calls evs =
        [(''x + y'' @ [CHR 0x0A], ''my_preamble.tex'', PyFloat ''2.5'', ''top left'', ''xelatex'', True)])"
proof -
  let ?g = "sample_tk ''2.5'' convert_fails"
  have h: "py_float sample_host (tk_scale ?g) = Some ''2.5''"
    by (simp add: sample_host_def sample_tk_def)
  obtain evs g' where run: "cb_ok_tk sample_host ?g = (None, evs, g')"
    using h
    by (simp add: cb_ok_tk_def Let_def sample_tk_def convert_fails_def show_error_dialog_tk_def
        exception_outputs_def)
  from cb_ok_tk_fields_kept [OF h run]
  have "global_scale_factor g' = PyFloat ''2.5'' \<and>
      self_text g' = ''x + y'' @ [CHR 0x0A] \<and>
      preamble_file g' = ''my_preamble.tex'' \<and>
      current_convert_strokes_to_path g' = True \<and>
      tk_convert_calls evs =
        [(''x + y'' @ [CHR 0x0A], ''my_preamble.tex'', PyFloat ''2.5'', ''top left'', ''xelatex'', True)]"
    by (auto simp add: sample_tk_def text_box_get_def)
  with h run show ?thesis by blast
qed

subsection \<open>A convert callback that raises\<close>


subsection \<open>Cancelling\<close>

text \<open>
  Claim C4, evaluated on the code. The TK \<open>cb_cancel\<close> raises \<open>SystemExit(1)\<close> with no
  effect. The GTK \<open>cb_cancel\<close> has no effect either, but it does not leave the event
  loop: it refers to \<open>window_deleted_cb\<close>, a name the object does not have, so it raises
  \<open>AttributeError\<close>. The handler that does leave the loop is \<open>on_window_delete\<close>.
\<close>

theorem cb_cancel_outcomes:
  "cb_cancel_tk t = (Some (SystemExit 1), [], t) \<and>
   \<not> gtk_hasattr ''window_deleted_cb'' \<and>
   cb_cancel_gtk g = (Some (Exc (AttributeError ''TexTextGuiGTK'' ''window_deleted_cb'')), [], g) \<and>
   MainQuit \<notin> set (fst (snd (cb_cancel_gtk g))) \<and>
   on_window_delete g = (None, [MainQuit], g)"
  using window_deleted_cb_undefined
  by (simp add: cb_cancel_tk_def cb_cancel_gtk_def no_attribute_def on_window_delete_def)


subsection \<open>Word wrap\<close>

text \<open>
  Claim C6. With the "gui" sub-section in the store, a click on the TK check button
  flips its variable, and the text box's wrap mode and the stored \<open>word_wrap\<close> both
  become the new value; the GTK handler sets the source view's wrap mode and the stored
  \<open>word_wrap\<close> to the toggle's new state.
\<close>

theorem word_wrap_toggle:
  "(\<forall>d r evs t'. config t ''gui'' = Some (PyDict d) \<longrightarrow> click_word_wrap_tk t = (r, evs, t') \<longrightarrow>
      r = None \<and>
      tk_word_wrap_tkval t' = (\<not> tk_word_wrap_tkval t) \<and>
      tk_text_box_wrap t' = (if tk_word_wrap_tkval t' then tk_WORD else tk_NONE) \<and>
      gui_get (config t') ''word_wrap'' dflt = Inr (PyBool (tk_word_wrap_tkval t'))) \<and>
   (\<forall>d r sv' g'. config g ''gui'' = Some (PyDict d) \<longrightarrow>
      word_wrap_toggled_cb g active sv = (r, sv', g') \<longrightarrow>
      r = None \<and>
      sv' = (if active then WrapMode_WORD else WrapMode_NONE) \<and>
      gui_get (config g') ''word_wrap'' dflt = Inr (PyBool active))"
  by (auto simp add: click_word_wrap_tk_def cb_word_wrap_def word_wrap_toggled_cb_def Let_def
      gui_set_dict gui_get_after_set)

theorem word_wrap_toggle_witness:
  "config (sample_tk ''2.5'' convert_ok) ''gui'' = Some (PyDict Map.empty) \<and>
   (\<exists>t'. click_word_wrap_tk (sample_tk ''2.5'' convert_ok) = (None, [], t') \<and>
      \<not> tk_word_wrap_tkval (sample_tk ''2.5'' convert_ok) \<and>
      tk_word_wrap_tkval t' \<and> tk_text_box_wrap t' = tk_WORD \<and>
      gui_get (config t') ''word_wrap'' (PyBool DEFAULT_WORDWRAP) = Inr (PyBool True)) \<and>
   config (sample_gtk convert_ok) ''gui'' = Some (PyDict Map.empty) \<and>
   (\<exists>g'. word_wrap_toggled_cb (sample_gtk convert_ok) True WrapMode_NONE = (None, WrapMode_WORD, g') \<and>
      gui_get (config g') ''word_wrap'' (PyBool DEFAULT_WORDWRAP) = Inr (PyBool True))"
proof -
  let ?t = "sample_tk ''2.5'' convert_ok" and ?g = "sample_gtk convert_ok"
  have ht: "config ?t ''gui'' = Some (PyDict Map.empty)" by (simp add: sample_tk_def)
  have hg: "config ?g ''gui'' = Some (PyDict Map.empty)" by (simp add: sample_gtk_def)
  obtain t' where rt: "click_word_wrap_tk ?t = (None, [], t')"
    using ht by (simp add: click_word_wrap_tk_def cb_word_wrap_def Let_def gui_set_def getitem_def)
  obtain sv' g' where rg: "word_wrap_toggled_cb ?g True WrapMode_NONE = (None, sv', g')"
    using hg by (simp add: word_wrap_toggled_cb_def Let_def gui_set_def getitem_def)
  have off: "\<not> tk_word_wrap_tkval ?t" by (simp add: sample_tk_def)
  note w = word_wrap_toggle [of ?t "PyBool DEFAULT_WORDWRAP" ?g True WrapMode_NONE]
  from w [THEN conjunct1, rule_format, OF ht rt] off
  have tk: "tk_word_wrap_tkval t' \<and> tk_text_box_wrap t' = tk_WORD \<and>
      gui_get (config t') ''word_wrap'' (PyBool DEFAULT_WORDWRAP) = Inr (PyBool True)"
    by simp
  from w [THEN conjunct2, rule_format, OF hg rg]
  have gtk: "sv' = WrapMode_WORD \<and>
      gui_get (config g') ''word_wrap'' (PyBool DEFAULT_WORDWRAP) = Inr (PyBool True)"
    by simp
  from ht hg rt rg off tk gtk show ?thesis by blast
qed


end
